theory Spec2Isabelle
  imports Complex_Main
begin

section \<open>Python values used by the retrieval core\<close>

text \<open>
  A Python \<open>str\<close> is modelled as a \<^typ>\<open>string\<close> whose characters each hold one code
  point below 256 (Latin-1, which covers the Portuguese alphabet of the source's
  keyword tables). Lengths and offsets therefore count code points, as Python does.
  Floating-point scores are modelled as real numbers.
\<close>

datatype erro = ValueError | IndexError

definition isspace :: "char \<Rightarrow> bool" where
  \<comment> \<open>\<open>str.isspace\<close> on one code point below 256\<close>
  "isspace c = (of_char c \<in> {9, 10, 11, 12, 13, 28, 29, 30, 31, 32, 133, 160 :: nat})"

definition lower_char :: "char \<Rightarrow> char" where
  \<comment> \<open>\<open>str.lower\<close> on one code point below 256: A-Z and the accented capitals\<close>
  "lower_char c =
     (let n = (of_char c :: nat)
      in if (65 \<le> n \<and> n \<le> 90) \<or> (192 \<le> n \<and> n \<le> 222 \<and> n \<noteq> 215)
         then char_of (n + 32) else c)"

definition str_lower :: "string \<Rightarrow> string" where
  "str_lower s = map lower_char s"

fun startswith :: "string \<Rightarrow> string \<Rightarrow> bool" where
  "startswith s [] = True"
| "startswith [] (p # ps) = False"
| "startswith (c # cs) (p # ps) = (c = p \<and> startswith cs ps)"

fun str_in :: "string \<Rightarrow> string \<Rightarrow> bool" where
  \<comment> \<open>\<open>sub in s\<close>\<close>
  "str_in sub [] = (sub = [])"
| "str_in sub (c # cs) = (startswith (c # cs) sub \<or> str_in sub cs)"

fun split_aux :: "string \<Rightarrow> string \<Rightarrow> string list" where
  "split_aux cur [] = (if cur = [] then [] else [cur])"
| "split_aux cur (c # cs) =
     (if isspace c then (if cur = [] then split_aux [] cs else cur # split_aux [] cs)
      else split_aux (cur @ [c]) cs)"

definition str_split :: "string \<Rightarrow> string list" where
  \<comment> \<open>\<open>s.split()\<close>: the maximal runs of non-whitespace characters\<close>
  "str_split s = split_aux [] s"

fun str_join :: "string \<Rightarrow> string list \<Rightarrow> string" where
  "str_join sep [] = []"
| "str_join sep [x] = x"
| "str_join sep (x # y # ys) = x @ sep @ str_join sep (y # ys)"

definition str_strip :: "string \<Rightarrow> string" where
  "str_strip s = rev (dropWhile isspace (rev (dropWhile isspace s)))"

definition slice_bound :: "nat \<Rightarrow> int \<Rightarrow> nat" where
  \<comment> \<open>a slice bound: a negative bound counts from the end, and both are clipped\<close>
  "slice_bound n i = (if i < 0 then nat (max 0 (int n + i)) else min n (nat i))"

definition py_slice :: "'a list \<Rightarrow> int \<Rightarrow> int \<Rightarrow> 'a list" where
  \<comment> \<open>\<open>xs[a:b]\<close>\<close>
  "py_slice xs a b =
     (let lo = slice_bound (length xs) a; hi = slice_bound (length xs) b
      in take (hi - lo) (drop lo xs))"

definition py_range0 :: "nat \<Rightarrow> int \<Rightarrow> erro + nat list" where
  \<comment> \<open>\<open>range(0, n, passo)\<close>: a zero step raises, a negative one gives nothing\<close>
  "py_range0 n passo =
     (if passo = 0 then Inl ValueError
      else if passo < 0 then Inr []
      else Inr (map (\<lambda>k. k * nat passo) [0..<(n + nat passo - 1) div nat passo]))"

section \<open>Chunker\<close>

record chunk =
  texto :: string
  indice :: nat
  posicao_inicial :: nat

definition chunk_step :: "string list \<Rightarrow> int \<Rightarrow> chunk list \<Rightarrow> nat \<Rightarrow> chunk list" where
  \<comment> \<open>the body of the loop of \<open>dividir_em_chunks\<close> at word offset \<open>i\<close>\<close>
  "chunk_step palavras tamanho_chunk chunks i =
     (let chunk = str_join '' '' (py_slice palavras (int i) (int i + tamanho_chunk))
      in if str_strip chunk \<noteq> []
         then chunks @ [\<lparr>texto = chunk, indice = length chunks, posicao_inicial = i\<rparr>]
         else chunks)"

definition dividir_em_chunks :: "string \<Rightarrow> int \<Rightarrow> int \<Rightarrow> erro + chunk list" where
  "dividir_em_chunks doc tamanho_chunk sobreposicao =
     (let palavras = str_split doc
      in case py_range0 (length palavras) (tamanho_chunk - sobreposicao) of
           Inl e \<Rightarrow> Inl e
         | Inr offsets \<Rightarrow> Inr (foldl (chunk_step palavras tamanho_chunk) [] offsets))"

definition palavras_compartilhadas :: "chunk \<Rightarrow> chunk \<Rightarrow> nat" where
  \<comment> \<open>how many word positions of the corpus lie in the windows of both chunks,
      the second starting no earlier than the first\<close>
  "palavras_compartilhadas c1 c2 =
     posicao_inicial c1 + length (str_split (texto c1)) - posicao_inicial c2"

definition wordlike :: "string \<Rightarrow> bool" where
  \<comment> \<open>a word as \<open>str.split\<close> returns it: not empty, no whitespace inside\<close>
  "wordlike w = (w \<noteq> [] \<and> (\<forall>c\<in>set w. \<not> isspace c))"

section \<open>Table extractor\<close>

fun split_sep_aux :: "string \<Rightarrow> nat \<Rightarrow> string \<Rightarrow> string \<Rightarrow> string list" where
  "split_sep_aux sep skip cur [] = [cur]"
| "split_sep_aux sep skip cur (c # cs) =
     (if 0 < skip then split_sep_aux sep (skip - 1) cur cs
      else if startswith (c # cs) sep then cur # split_sep_aux sep (length sep - 1) [] cs
      else split_sep_aux sep 0 (cur @ [c]) cs)"

definition str_split_sep :: "string \<Rightarrow> string \<Rightarrow> string list" where
  \<comment> \<open>\<open>s.split(sep)\<close> for a separator that is not empty: the pieces between the
      occurrences of \<open>sep\<close>, found from left to right without overlap\<close>
  "str_split_sep sep s = split_sep_aux sep 0 [] s"

definition isdecimal :: "char \<Rightarrow> bool" where
  \<comment> \<open>the class \<open>\d\<close> below code point 256\<close>
  "isdecimal c = (48 \<le> (of_char c :: nat) \<and> (of_char c :: nat) \<le> 57)"

definition match_numero :: "string \<Rightarrow> nat" where
  \<comment> \<open>how many characters \<open>\d+(?:\.\d+)?\<close> matches at the start of \<open>s\<close> (0: no match)\<close>
  "match_numero s =
     (let d = length (takeWhile isdecimal s)
      in if d = 0 then 0
         else (case drop d s of
                 [] \<Rightarrow> d
               | c # r \<Rightarrow>
                   if c = CHR ''.'' \<and> takeWhile isdecimal r \<noteq> []
                   then d + 1 + length (takeWhile isdecimal r) else d))"

function match_seguintes :: "string \<Rightarrow> nat" where
  \<comment> \<open>how many characters \<open>(?:\s+\d+(?:\.\d+)?)*\<close> matches at the start of \<open>s\<close>\<close>
  "match_seguintes s =
     (let w = length (takeWhile isspace s); m = match_numero (drop w s)
      in if w = 0 \<or> m = 0 then 0 else w + m + match_seguintes (drop (w + m) s))"
  by pat_completeness auto
termination
proof (relation "measure length")
  show "wf (measure length)" by simp
next
  fix s :: string and w m :: nat
  assume "w = length (takeWhile isspace s)" and "\<not> (w = 0 \<or> m = 0)"
  then have "s \<noteq> []" "0 < w + m" by auto
  then show "(drop (w + m) s, s) \<in> measure length" by simp
qed

fun findall_aux :: "nat \<Rightarrow> string \<Rightarrow> string list" where
  "findall_aux skip [] = []"
| "findall_aux skip (c # cs) =
     (if 0 < skip then findall_aux (skip - 1) cs
      else let m = match_numero (c # cs)
           in if m = 0 then findall_aux 0 cs
              else let n = m + match_seguintes (drop m (c # cs))
                   in take n (c # cs) # findall_aux (n - 1) cs)"

definition findall_padrao_tabela :: "string \<Rightarrow> string list" where
  \<comment> \<open>\<open>re.findall(padrao_tabela, secao)\<close> for
      \<open>padrao_tabela = r'(\d+(?:\.\d+)?(?:\s+\d+(?:\.\d+)?)*)'\<close>: the runs of numbers
      separated by whitespace, from left to right without overlap\<close>
  "findall_padrao_tabela secao = findall_aux 0 secao"

record tabela =
  conteudo :: string
  secao :: string
  dados_numericos :: "string list"

definition tabela_step :: "tabela list \<Rightarrow> string \<Rightarrow> tabela list" where
  \<comment> \<open>the body of the loop of \<open>extrair_tabelas_do_md\<close> for one section\<close>
  "tabela_step tabelas_encontradas sec =
     (let matches = findall_padrao_tabela sec
      in if matches \<noteq> []
         then tabelas_encontradas @
              [\<lparr>conteudo = ''Dados num'' @ [CHR 0xE9] @ ''ricos encontrados: '' @ str_join '', '' (take 10 matches),
                secao = (if length sec > 200 then take 200 sec @ ''...'' else sec),
                dados_numericos = take 10 matches\<rparr>]
         else tabelas_encontradas)"

definition ultimas_secoes :: "string list \<Rightarrow> string list" where
  \<comment> \<open>\<open>secoes[-5:] if len(secoes) > 5 else secoes\<close>\<close>
  "ultimas_secoes secoes =
     (if length secoes > 5 then py_slice secoes (- 5) (int (length secoes)) else secoes)"

definition extrair_tabelas_do_md :: "string \<Rightarrow> tabela list" where
  "extrair_tabelas_do_md texto_md =
     foldl tabela_step [] (ultimas_secoes (str_split_sep ([CHR 0x0A] @ ''---'') texto_md))"

section \<open>Section extractor\<close>

text \<open>
  The topic patterns are one group of alternatives, each a sequence of literal
  characters and \<open>.*\<close>. \<open>re_compile\<close> reads that fragment of the pattern syntax and
  \<open>re_finditer\<close> matches it as \<open>re.finditer(padrao, texto, re.IGNORECASE)\<close> does: from left
  to right without overlap, the first alternative that matches wins, \<open>.*\<close> is greedy
  and does not cross a line feed. Every pattern of the table matches at least one
  character.
\<close>

datatype re_item = Lit string | DotStar

fun parse_alt :: "string \<Rightarrow> string \<Rightarrow> re_item list" where
  "parse_alt cur [] = (if cur = [] then [] else [Lit cur])"
| "parse_alt cur [c] = [Lit (cur @ [c])]"
| "parse_alt cur (c # d # cs) =
     (if c = CHR ''.'' \<and> d = CHR ''*''
      then (if cur = [] then [] else [Lit cur]) @ DotStar # parse_alt [] cs
      else parse_alt (cur @ [c]) (d # cs))"

definition re_compile :: "string \<Rightarrow> re_item list list" where
  \<comment> \<open>\<open>(alt|alt|...)\<close>: the alternatives between the parentheses\<close>
  "re_compile padrao = map (parse_alt []) (str_split_sep ''|'' (butlast (tl padrao)))"

fun match_items :: "re_item list \<Rightarrow> string \<Rightarrow> nat option" where
  "match_items [] s = Some 0"
| "match_items (Lit l # r) s =
     (if startswith (str_lower s) (str_lower l)
      then map_option (\<lambda>n. length l + n) (match_items r (drop (length l) s))
      else None)"
| "match_items (DotStar # r) s =
     (case List.find (\<lambda>k. match_items r (drop k s) \<noteq> None)
             (rev [0..<Suc (length (takeWhile (\<lambda>c. c \<noteq> CHR 0x0A) s))]) of
        None \<Rightarrow> None
      | Some k \<Rightarrow> map_option (\<lambda>n. k + n) (match_items r (drop k s)))"

fun match_alts :: "re_item list list \<Rightarrow> string \<Rightarrow> nat option" where
  "match_alts [] s = None"
| "match_alts (a # alts) s =
     (case match_items a s of Some n \<Rightarrow> Some n | None \<Rightarrow> match_alts alts s)"

fun finditer_aux :: "re_item list list \<Rightarrow> nat \<Rightarrow> nat \<Rightarrow> string \<Rightarrow> (nat \<times> nat) list" where
  "finditer_aux re skip pos [] = []"
| "finditer_aux re skip pos (c # cs) =
     (if 0 < skip then finditer_aux re (skip - 1) (Suc pos) cs
      else (case match_alts re (c # cs) of
              None \<Rightarrow> finditer_aux re 0 (Suc pos) cs
            | Some n \<Rightarrow> (pos, pos + n) # finditer_aux re (n - 1) (Suc pos) cs))"

definition re_finditer :: "string \<Rightarrow> string \<Rightarrow> (nat \<times> nat) list" where
  \<comment> \<open>the spans \<open>(match.start(), match.end())\<close> of the matches, in order\<close>
  "re_finditer padrao s = finditer_aux (re_compile padrao) 0 0 s"

definition padroes_secoes :: "(string \<times> string) list" where
  "padroes_secoes =
     [(''metodologia'',
       ''(metodologia|m'' @ [CHR 0xE9] @ ''todo|procedimento)''),
      (''indicadores'',
       ''(indicador|m'' @ [CHR 0xE9] @ ''trica|medida)''),
      (''resultados'',
       ''(resultado|conclus'' @ [CHR 0xE3] @ ''o|achado)''),
      (''recomendacoes'',
       ''(recomenda|sugest'' @ [CHR 0xE3] @ ''o|orienta'' @ [CHR 0xE7] @ [CHR 0xE3] @ ''o)''),
      (''tabelas'',
       ''(tabela|quadro|dados)''),
      (''graficos'',
       ''(gr'' @ [CHR 0xE1] @ ''fico|figura|chart)''),
      (''habilidades'',
       ''(habilidade|compet'' @ [CHR 0xEA] @ ''ncia|capacidade)''),
      (''componentes'',
       ''(componente|disciplina|'' @ [CHR 0xE1] @ ''rea)''),
      (''relacoes'',
       ''(rela'' @ [CHR 0xE7] @ [CHR 0xE3] @ ''o|relacionamento|conex'' @ [CHR 0xE3] @
       ''o|vincula'' @ [CHR 0xE7] @ [CHR 0xE3] @ ''o)''),
      (''proficiencia'',
       ''(profici'' @ [CHR 0xEA] @ ''ncia|desempenho|rendimento)''),
      (''avaliacao'',
       ''(avalia'' @ [CHR 0xE7] @ [CHR 0xE3] @ ''o|teste|exame)''),
      (''curriculo'',
       ''(curr'' @ [CHR 0xED] @ ''culo|conte'' @ [CHR 0xFA] @ ''do|programa)''),
      (''bncc_competencias'',
       ''(compet'' @ [CHR 0xEA] @ ''ncia geral|compet'' @ [CHR 0xEA] @ ''ncia espec'' @
       [CHR 0xED] @ ''fica|habilidade essencial)''),
      (''bncc_campos'',
       ''(campo de experi'' @ [CHR 0xEA] @ ''ncia|'' @ [CHR 0xE1] @ ''rea de conhecimento)''),
      (''bncc_objetivos'',
       ''(objetivo de aprendizagem|expectativa de aprendizagem)''),
      (''bncc_etapas'',
       ''(educa'' @ [CHR 0xE7] @ [CHR 0xE3] @ ''o infantil|ensino fundamental|ensino m'' @
       [CHR 0xE9] @ ''dio)''),
      (''bncc_areas'',
       ''(linguagens|matem'' @ [CHR 0xE1] @ ''tica|ci'' @ [CHR 0xEA] @ ''ncias|humanas)''),
      (''bncc_objetivos_gerais'',
       ''(objetivo geral|finalidade|prop'' @ [CHR 0xF3] @ ''sito)''),
      (''bncc_principios'',
       ''(princ'' @ [CHR 0xED] @ ''pio|fundamento|base)''),
      (''bncc_organizacao'',
       ''(organiza'' @ [CHR 0xE7] @ [CHR 0xE3] @ ''o|estrutura|distribui'' @ [CHR 0xE7] @
       [CHR 0xE3] @ ''o)''),
      (''bncc_avaliacao'',
       ''(avalia'' @ [CHR 0xE7] @ [CHR 0xE3] @ ''o formativa|avalia'' @ [CHR 0xE7] @ [CHR 0xE3] @
       ''o diagn'' @ [CHR 0xF3] @ ''stica|avalia'' @ [CHR 0xE7] @ [CHR 0xE3] @ ''o somativa)''),
      (''dcrc_competencias_especificas'',
       ''(compet'' @ [CHR 0xEA] @ ''ncia espec'' @ [CHR 0xED] @ ''fica|habilidade espec'' @
       [CHR 0xED] @ ''fica|descri'' @ [CHR 0xE7] @ [CHR 0xE3] @ ''o da habilidade)''),
      (''dcrc_descricoes_habilidades'',
       ''(descri'' @ [CHR 0xE7] @ [CHR 0xE3] @ ''o|caracteriza'' @ [CHR 0xE7] @ [CHR 0xE3] @
       ''o|defini'' @ [CHR 0xE7] @ [CHR 0xE3] @ ''o.*habilidade)''),
      (''dcrc_relacoes_habilidades'',
       ''(rela'' @ [CHR 0xE7] @ [CHR 0xE3] @ ''o.*habilidade|vincula'' @ [CHR 0xE7] @ [CHR 0xE3] @
       ''o.*compet'' @ [CHR 0xEA] @ ''ncia|conex'' @ [CHR 0xE3] @ ''o.*componente)'')]"

type_synonym secoes = "(string \<times> string list) list"

fun secoes_append :: "secoes \<Rightarrow> string \<Rightarrow> string \<Rightarrow> secoes" where
  \<comment> \<open>\<open>if nome not in secoes: secoes[nome] = []\<close>, then \<open>secoes[nome].append(contexto)\<close>,
      on a dict kept in insertion order\<close>
  "secoes_append [] nome contexto = [(nome, [contexto])]"
| "secoes_append ((k, vs) # d) nome contexto =
     (if k = nome then (k, vs @ [contexto]) # d else (k, vs) # secoes_append d nome contexto)"

definition contexto_match :: "string \<Rightarrow> nat \<times> nat \<Rightarrow> string" where
  "contexto_match texto_md m =
     (let inicio = max 0 (int (fst m) - 500);
          fim = min (int (length texto_md)) (int (snd m) + 500)
      in py_slice texto_md inicio fim)"

definition secao_step :: "string \<Rightarrow> secoes \<Rightarrow> string \<times> string \<Rightarrow> secoes" where
  \<comment> \<open>the body of the outer loop of \<open>extrair_secoes_importantes\<close> for one topic\<close>
  "secao_step texto_md secs np =
     foldl (\<lambda>d m. secoes_append d (fst np) (contexto_match texto_md m)) secs
       (re_finditer (snd np) texto_md)"

definition extrair_secoes_importantes :: "string \<Rightarrow> secoes" where
  "extrair_secoes_importantes texto_md = foldl (secao_step texto_md) [] padroes_secoes"

section \<open>Similarity indexer\<close>

text \<open>
  \<open>TfidfVectorizer\<close> is library code. Its tokens are the runs of two or more word
  characters of the lower-cased text (\<open>token_pattern = r"(?u)\b\w\w+\b"\<close>), and
  \<open>fit_transform\<close> raises \<open>ValueError\<close> ("empty vocabulary") when no text has a token.
  The weights it computes otherwise are a parameter of the model: \<open>pesos textos\<close> gives
  the fitted vectorizer, as the function \<open>transform\<close> from a text to its vector, and
  the matrix with one row for each text.
\<close>

type_synonym vetor = "real list"

type_synonym pesos = "string list \<Rightarrow> (string \<Rightarrow> vetor) \<times> vetor list"

definition word_char :: "char \<Rightarrow> bool" where
  \<comment> \<open>the class \<open>\w\<close> below code point 256\<close>
  "word_char c =
     (let n = (of_char c :: nat)
      in (48 \<le> n \<and> n \<le> 57) \<or> (65 \<le> n \<and> n \<le> 90) \<or> n = 95 \<or> (97 \<le> n \<and> n \<le> 122)
         \<or> n \<in> {170, 178, 179, 181, 185, 186, 188, 189, 190}
         \<or> (192 \<le> n \<and> n \<le> 214) \<or> (216 \<le> n \<and> n \<le> 246) \<or> 248 \<le> n)"

fun tem_token :: "string \<Rightarrow> bool" where
  "tem_token (a # b # cs) = (word_char a \<and> word_char b \<or> tem_token (b # cs))"
| "tem_token cs = False"

definition fit_transform :: "pesos \<Rightarrow> string list \<Rightarrow> erro + ((string \<Rightarrow> vetor) \<times> vetor list)" where
  "fit_transform p textos =
     (if list_ex (\<lambda>t. tem_token (str_lower t)) textos then Inr (p textos) else Inl ValueError)"

record indice_sim =
  vectorizer :: "string \<Rightarrow> vetor"
  tfidf_matrix :: "vetor list"
  chunks :: "chunk list"

definition criar_indice_similaridade :: "pesos \<Rightarrow> chunk list \<Rightarrow> indice_sim option" where
  "criar_indice_similaridade p cs =
     (if cs = [] then None
      else (case fit_transform p (map texto cs) of
              Inl e \<Rightarrow> None
            | Inr vm \<Rightarrow> Some \<lparr>vectorizer = fst vm, tfidf_matrix = snd vm, chunks = cs\<rparr>))"

record dados_rag =
  chunks_rag :: "chunk list"
  tabelas :: "tabela list"
  secoes_importantes :: secoes
  indice_similaridade :: "indice_sim option"
  texto_completo :: string

definition processar_md_com_rag :: "pesos \<Rightarrow> string \<Rightarrow> dados_rag option" where
  "processar_md_com_rag p texto_md =
     (case dividir_em_chunks texto_md 1000 200 of
        Inl e \<Rightarrow> None
      | Inr cs \<Rightarrow>
          Some \<lparr>chunks_rag = cs,
                tabelas = extrair_tabelas_do_md texto_md,
                secoes_importantes = extrair_secoes_importantes texto_md,
                indice_similaridade = criar_indice_similaridade p cs,
                texto_completo = texto_md\<rparr>)"

section \<open>Retriever\<close>

record resultado =
  chunk :: chunk
  similaridade :: real
  texto_res :: string
  fonte :: "string option"

definition consulta_habilidade :: "string \<Rightarrow> bool" where
  \<comment> \<open>\<open>'habilidade' in consulta.lower() or 'competencia' in consulta.lower()\<close>\<close>
  "consulta_habilidade consulta =
     (str_in ''habilidade'' (str_lower consulta) \<or>
      str_in (''compet'' @ [CHR 0xEA] @ ''ncia'') (str_lower consulta))"

definition expandir_consulta :: "string \<Rightarrow> string" where
  "expandir_consulta consulta =
     (if consulta_habilidade consulta then
        consulta @
        '' habilidade compet'' @ [CHR 0xEA] @ ''ncia capacidade componente rela'' @ [CHR 0xE7] @
        [CHR 0xE3] @ ''o entre componentes proximidade habilidades SPAECE DCRC BNCC ava'' @
        ''lia'' @ [CHR 0xE7] @ [CHR 0xE3] @ ''o profici'' @ [CHR 0xEA] @ ''ncia compet'' @
        [CHR 0xEA] @ ''ncia geral compet'' @ [CHR 0xEA] @ ''ncia espec'' @ [CHR 0xED] @
        ''fica habilidade essencial descri'' @ [CHR 0xE7] @ [CHR 0xE3] @
        ''o da habilidade caracteriza'' @ [CHR 0xE7] @ [CHR 0xE3] @ ''o habilidade espec'' @
        [CHR 0xED] @ ''fica vincula'' @ [CHR 0xE7] @ [CHR 0xE3] @ ''o compet'' @ [CHR 0xEA] @
        ''ncia conex'' @ [CHR 0xE3] @ ''o componente rela'' @ [CHR 0xE7] @ [CHR 0xE3] @
        ''o dentro pr'' @ [CHR 0xF3] @ ''prio componente compet'' @ [CHR 0xEA] @ ''ncias espec'' @
        [CHR 0xED] @ ''ficas descri'' @ [CHR 0xE7] @ [CHR 0xF5] @ ''es habilidades rela'' @
        [CHR 0xE7] @ [CHR 0xF5] @ ''es habilidades objeto de conhecimento campo de experi'' @
        [CHR 0xEA] @ ''ncia pr'' @ [CHR 0xE1] @
        ''tica de linguagem percurso aprendizado progress'' @ [CHR 0xE3] @ ''o sequ'' @ [CHR 0xEA] @
        ''ncia depend'' @ [CHR 0xEA] @ ''ncia pr'' @ [CHR 0xE9] @
        ''-requisito hierarquia metodologia estrat'' @ [CHR 0xE9] @
        ''gia ensino objetivo aprendizagem expectativa aprendizagem direit'' @
        ''o aprendizagem base nacional comum curricular documento curricul'' @ ''ar referencial''
      else if str_in (''profici'' @ [CHR 0xEA] @ ''ncia'') (str_lower consulta) \<or>
              str_in ''desempenho'' (str_lower consulta) then
        consulta @
        '' profici'' @ [CHR 0xEA] @ ''ncia desempenho rendimento SPAECE DCRC BNCC avalia'' @
        [CHR 0xE7] @ [CHR 0xE3] @ ''o compet'' @ [CHR 0xEA] @
        ''ncia objetivo de aprendizagem compet'' @ [CHR 0xEA] @ ''ncia espec'' @ [CHR 0xED] @
        ''fica''
      else if str_in (''participa'' @ [CHR 0xE7] @ [CHR 0xE3] @ ''o'') (str_lower consulta) then
        consulta @
        '' participa'' @ [CHR 0xE7] @ [CHR 0xE3] @ ''o frequ'' @ [CHR 0xEA] @ ''ncia presen'' @
        [CHR 0xE7] @ ''a SPAECE DCRC BNCC educa'' @ [CHR 0xE7] @ [CHR 0xE3] @ ''o b'' @ [CHR 0xE1] @
        ''sica''
      else
        consulta @
        '' educa'' @ [CHR 0xE7] @ [CHR 0xE3] @ ''o avalia'' @ [CHR 0xE7] @ [CHR 0xE3] @
        ''o SPAECE DCRC BNCC metodologia indicadores compet'' @ [CHR 0xEA] @ ''ncia geral compet'' @
        [CHR 0xEA] @ ''ncia espec'' @ [CHR 0xED] @ ''fica habilidade essencial descri'' @
        [CHR 0xE7] @ [CHR 0xE3] @ ''o habilidade'')"

definition norma :: "vetor \<Rightarrow> real" where
  "norma v = sqrt (sum_list (map (\<lambda>x. x * x) v))"

definition normalize :: "vetor \<Rightarrow> vetor" where
  \<comment> \<open>the row divided by its Euclidean norm, a zero row left as it is\<close>
  "normalize v = (if norma v = 0 then v else map (\<lambda>x. x / norma v) v)"

definition dot :: "vetor \<Rightarrow> vetor \<Rightarrow> real" where
  "dot u v = sum_list (map2 (*) u v)"

definition cosine_similarity :: "vetor \<Rightarrow> vetor list \<Rightarrow> erro + real list" where
  \<comment> \<open>\<open>cosine_similarity(x, Y).flatten()\<close> for the one-row \<open>x\<close>: rows of another width
      than \<open>x\<close> raise\<close>
  "cosine_similarity x ys =
     (if list_ex (\<lambda>y. length y \<noteq> length x) ys then Inl ValueError
      else Inr (map (\<lambda>y. dot (normalize x) (normalize y)) ys))"

definition argsort :: "real list \<Rightarrow> nat list" where
  \<comment> \<open>\<open>np.argsort\<close>: the indices in ascending order of their values, equal values in
      ascending order of index\<close>
  "argsort xs = sort_key (\<lambda>i. xs ! i) [0..<length xs]"

definition top_indices :: "real list \<Rightarrow> int \<Rightarrow> nat list" where
  \<comment> \<open>\<open>np.argsort(similaridades)[::-1][:top_k]\<close>\<close>
  "top_indices similaridades top_k = py_slice (rev (argsort similaridades)) 0 top_k"

definition fonte_documento :: "string \<Rightarrow> nat \<Rightarrow> string" where
  "fonte_documento chunk_texto idx =
     (if str_in ''BNCC'' chunk_texto \<or> str_in ''Base Nacional Comum Curricular'' chunk_texto
         \<or> str_in ''BNCC_20dez_site'' chunk_texto then ''BNCC''
      else if str_in ''DCRC'' chunk_texto \<or> str_in ''Documento Curricular Referencial'' chunk_texto
         \<or> str_in ''dcrc'' (str_lower chunk_texto) then ''DCRC''
      else if idx mod 2 = 0 then ''BNCC'' else ''DCRC'')"

definition fonte_habilidade :: "string \<Rightarrow> nat \<Rightarrow> string" where
  "fonte_habilidade chunk_texto i =
     (if str_in ''BNCC'' chunk_texto \<or> str_in ''Base Nacional Comum Curricular'' chunk_texto
      then ''BNCC''
      else if str_in ''DCRC'' chunk_texto \<or> str_in ''Documento Curricular Referencial'' chunk_texto
      then ''DCRC''
      else if i mod 2 = 0 then ''BNCC'' else ''DCRC'')"

fun passo_primario ::
  "real list \<Rightarrow> chunk list \<Rightarrow> nat list \<Rightarrow> resultado list \<Rightarrow> erro + resultado list" where
  \<comment> \<open>the loop over \<open>top_indices\<close>; \<open>chunks[idx]\<close> raises out of range\<close>
  "passo_primario similaridades cs [] resultados = Inr resultados"
| "passo_primario similaridades cs (idx # resto) resultados =
     (if similaridades ! idx > 5 / 100 then
        (if idx < length cs then
           passo_primario similaridades cs resto
             (resultados @
              [\<lparr>chunk = cs ! idx, similaridade = similaridades ! idx,
                texto_res = texto (cs ! idx),
                fonte = Some (fonte_documento (texto (cs ! idx)) idx)\<rparr>])
         else Inl IndexError)
      else passo_primario similaridades cs resto resultados)"

definition palavras_habilidade :: "string list" where
  "palavras_habilidade =
     [''habilidade'',
      ''compet'' @ [CHR 0xEA] @ ''ncia'',
      ''capacidade'',
      ''componente'',
      ''rela'' @ [CHR 0xE7] @ [CHR 0xE3] @ ''o'',
      ''vincula'' @ [CHR 0xE7] @ [CHR 0xE3] @ ''o'',
      ''conex'' @ [CHR 0xE3] @ ''o'',
      ''descri'' @ [CHR 0xE7] @ [CHR 0xE3] @ ''o'',
      ''caracteriza'' @ [CHR 0xE7] @ [CHR 0xE3] @ ''o'',
      ''espec'' @ [CHR 0xED] @ ''fica'',
      ''geral'',
      ''essencial'',
      ''dcrc'',
      ''documento curricular'',
      ''bncc'',
      ''base nacional comum curricular'']"

fun passo_habilidades :: "int \<Rightarrow> (nat \<times> chunk) list \<Rightarrow> resultado list \<Rightarrow> resultado list" where
  \<comment> \<open>the loop over \<open>enumerate(chunks)\<close> of the search for abilities\<close>
  "passo_habilidades top_k [] resultados = resultados"
| "passo_habilidades top_k ((i, c) # resto) resultados =
     (if list_ex (\<lambda>palavra. str_in palavra (str_lower (texto c))) palavras_habilidade
         \<and> \<not> list_ex (\<lambda>r. indice (chunk r) = indice c) resultados
      then (if int (length resultados) + 1 \<ge> top_k * 2
            then resultados @
                 [\<lparr>chunk = c, similaridade = 4 / 10, texto_res = texto c,
                   fonte = Some (fonte_habilidade (texto c) i)\<rparr>]
            else passo_habilidades top_k resto
                 (resultados @
                  [\<lparr>chunk = c, similaridade = 4 / 10, texto_res = texto c,
                    fonte = Some (fonte_habilidade (texto c) i)\<rparr>]))
      else passo_habilidades top_k resto resultados)"

fun passo_palavras_chave ::
  "int \<Rightarrow> string list \<Rightarrow> chunk list \<Rightarrow> resultado list \<Rightarrow> resultado list" where
  \<comment> \<open>the loop over the chunks of the search by keywords\<close>
  "passo_palavras_chave top_k palavras_chave [] resultados = resultados"
| "passo_palavras_chave top_k palavras_chave (c # resto) resultados =
     (if list_ex (\<lambda>palavra. str_in palavra (str_lower (texto c))) palavras_chave
      then (if int (length resultados) + 1 \<ge> top_k
            then resultados @
                 [\<lparr>chunk = c, similaridade = 3 / 10, texto_res = texto c, fonte = None\<rparr>]
            else passo_palavras_chave top_k palavras_chave resto
                 (resultados @
                  [\<lparr>chunk = c, similaridade = 3 / 10, texto_res = texto c, fonte = None\<rparr>]))
      else passo_palavras_chave top_k palavras_chave resto resultados)"

definition buscar_corpo :: "string \<Rightarrow> indice_sim \<Rightarrow> int \<Rightarrow> erro + resultado list" where
  \<comment> \<open>the body of the \<open>try\<close> of \<open>buscar_informacoes_relevantes\<close>, once the index is there\<close>
  "buscar_corpo consulta ind top_k =
     (let consulta_vector = vectorizer ind (expandir_consulta consulta)
      in case cosine_similarity consulta_vector (tfidf_matrix ind) of
           Inl e \<Rightarrow> Inl e
         | Inr similaridades \<Rightarrow>
             (case passo_primario similaridades (chunks ind)
                     (top_indices similaridades top_k) [] of
                Inl e \<Rightarrow> Inl e
              | Inr primarios \<Rightarrow>
                  (let resultados =
                         (if consulta_habilidade consulta
                          then passo_habilidades top_k (enumerate 0 (chunks ind)) primarios
                          else primarios)
                   in if resultados = []
                      then Inr (passo_palavras_chave top_k (str_split (str_lower consulta))
                                  (chunks ind) resultados)
                      else Inr resultados)))"

definition buscar_informacoes_relevantes ::
  "string \<Rightarrow> dados_rag option \<Rightarrow> int \<Rightarrow> resultado list" where
  \<comment> \<open>no data or no index gives the empty list, and so does every exception\<close>
  "buscar_informacoes_relevantes consulta dados top_k =
     (case dados of
        None \<Rightarrow> []
      | Some d \<Rightarrow>
          (case indice_similaridade d of
             None \<Rightarrow> []
           | Some ind \<Rightarrow>
               (case buscar_corpo consulta ind top_k of Inl e \<Rightarrow> [] | Inr rs \<Rightarrow> rs)))"

section \<open>Example indexes\<close>

text \<open>
  The index of a corpus with one term has one column: a row is \<open>[1]\<close> for a chunk that
  holds the term, and a query has the vector \<open>[1]\<close> when it holds the term as a word of
  its own and the zero vector otherwise.
\<close>

definition vetor_do_termo :: "string \<Rightarrow> string \<Rightarrow> vetor" where
  "vetor_do_termo termo s = (if list_ex ((=) termo) (str_split (str_lower s)) then [1] else [0])"

definition indice_abcdef :: indice_sim where
  \<comment> \<open>the corpus \<open>abcdef\<close>, one chunk\<close>
  "indice_abcdef =
     \<lparr>vectorizer = vetor_do_termo ''abcdef'', tfidf_matrix = [[1]],
      chunks = [\<lparr>texto = ''abcdef'', indice = 0, posicao_inicial = 0\<rparr>]\<rparr>"

definition indice_xy :: indice_sim where
  \<comment> \<open>the corpus \<open>xy xy\<close> in chunks of one word\<close>
  "indice_xy =
     \<lparr>vectorizer = vetor_do_termo ''xy'', tfidf_matrix = [[1], [1]],
      chunks = [\<lparr>texto = ''xy'', indice = 0, posicao_inicial = 0\<rparr>,
                \<lparr>texto = ''xy'', indice = 1, posicao_inicial = 1\<rparr>]\<rparr>"

definition dados_de :: "indice_sim \<Rightarrow> dados_rag" where
  \<comment> \<open>loaded data around an index, with no table and no section\<close>
  "dados_de ind =
     \<lparr>chunks_rag = chunks ind, tabelas = [], secoes_importantes = [],
      indice_similaridade = Some ind,
      texto_completo = str_join '' '' (map texto (chunks ind))\<rparr>"

section \<open>Properties of the chunker\<close>

lemma chunk_step_indices:
  "map indice cs = [0..<length cs] \<Longrightarrow>
   map indice (chunk_step p t cs i) = [0..<length (chunk_step p t cs i)]"
  by (simp add: chunk_step_def Let_def)

lemma foldl_chunk_step_indices:
  "map indice cs = [0..<length cs] \<Longrightarrow>
   map indice (foldl (chunk_step p t) cs offs) = [0..<length (foldl (chunk_step p t) cs offs)]"
proof (induction offs arbitrary: cs)
  case Nil
  then show ?case by simp
next
  case (Cons i offs)
  from Cons.prems have "map indice (chunk_step p t cs i) = [0..<length (chunk_step p t cs i)]"
    by (rule chunk_step_indices)
  then show ?case using Cons.IH by simp
qed

lemma split_aux_wordlike:
  "\<forall>c\<in>set cur. \<not> isspace c \<Longrightarrow> \<forall>w\<in>set (split_aux cur s). wordlike w"
proof (induction s arbitrary: cur)
  case Nil
  then show ?case by (simp add: wordlike_def)
next
  case (Cons c s)
  show ?case
  proof (cases "isspace c")
    case True
    have "\<forall>w\<in>set (split_aux [] s). wordlike w" by (rule Cons.IH) simp
    with True Cons.prems show ?thesis by (simp add: wordlike_def)
  next
    case False
    with Cons.prems have "\<forall>c'\<in>set (cur @ [c]). \<not> isspace c'" by simp
    from Cons.IH[OF this] False show ?thesis by simp
  qed
qed

lemma str_split_wordlike: "\<forall>w\<in>set (str_split s). wordlike w"
  unfolding str_split_def by (rule split_aux_wordlike) simp

lemma split_aux_word:
  "\<forall>c\<in>set w. \<not> isspace c \<Longrightarrow> split_aux cur (w @ r) = split_aux (cur @ w) r"
  by (induction w arbitrary: cur) simp_all

lemma isspace_space: "isspace (CHR '' '')"
  by (simp add: isspace_def)

lemma str_split_join:
  "\<forall>w\<in>set ws. wordlike w \<Longrightarrow> str_split (str_join '' '' ws) = ws"
proof (induction ws)
  case Nil
  then show ?case by (simp add: str_split_def)
next
  case (Cons x ws)
  then have x: "\<forall>c\<in>set x. \<not> isspace c" "x \<noteq> []" by (simp_all add: wordlike_def)
  show ?case
  proof (cases ws)
    case Nil
    have "split_aux [] (x @ []) = split_aux ([] @ x) []"
      using x(1) by (rule split_aux_word)
    with Nil x(2) show ?thesis by (simp add: str_split_def)
  next
    case (Cons y ys)
    have "split_aux [] (x @ ('' '' @ str_join '' '' (y # ys)))
          = split_aux ([] @ x) ('' '' @ str_join '' '' (y # ys))"
      using x(1) by (rule split_aux_word)
    also have "\<dots> = x # split_aux [] (str_join '' '' (y # ys))"
      using x(2) isspace_space by simp
    also have "\<dots> = x # y # ys"
      using Cons.IH Cons.prems Cons by (simp add: str_split_def)
    finally show ?thesis using Cons by (simp add: str_split_def)
  qed
qed

lemma str_strip_join_nonempty:
  assumes "ws \<noteq> []" "\<forall>w\<in>set ws. wordlike w"
  shows "str_strip (str_join '' '' ws) \<noteq> []"
proof -
  from assms obtain c r where j: "str_join '' '' ws = c # r" and c: "\<not> isspace c"
  proof (cases ws)
    case Nil with assms show ?thesis by simp
  next
    case (Cons w ws')
    with assms(2) obtain c w' where w: "w = c # w'" "\<not> isspace c"
      by (cases w) (auto simp: wordlike_def)
    show ?thesis
    proof (cases ws')
      case Nil with Cons w that show ?thesis by simp
    next
      case (Cons y ys) with \<open>ws = w # ws'\<close> w that show ?thesis by simp
    qed
  qed
  have "dropWhile isspace (c # r) = c # r" using c by simp
  moreover have "dropWhile isspace (rev (c # r)) \<noteq> []"
    using c by (auto simp: dropWhile_eq_Nil_conv)
  ultimately show ?thesis by (simp add: str_strip_def j)
qed

lemma py_slice_window:
  "0 < t \<Longrightarrow> py_slice p (int i) (int i + t) = take (nat t) (drop i p)"
  by (auto simp: py_slice_def slice_bound_def Let_def min_def nat_add_distrib)


lemma foldl_chunk_step_windows:
  assumes "0 < t" "\<forall>w\<in>set p. wordlike w" "\<forall>i\<in>set offs. i < length p"
  shows "foldl (chunk_step p t) acc offs =
         acc @ map (\<lambda>j. \<lparr>texto = str_join '' '' (take (nat t) (drop (offs ! j) p)),
                          indice = length acc + j, posicao_inicial = offs ! j\<rparr>) [0..<length offs]"
  using assms(3)
proof (induction offs rule: rev_induct)
  case Nil
  then show ?case by simp
next
  case (snoc i offs)
  let ?w = "take (nat t) (drop i p)"
  from snoc.prems have i: "i < length p" by simp
  with assms(1) have "?w \<noteq> []" by simp
  moreover have "\<forall>w\<in>set ?w. wordlike w"
    using assms(2) by (meson in_set_dropD in_set_takeD)
  ultimately have ne: "str_strip (str_join '' '' ?w) \<noteq> []"
    by (rule str_strip_join_nonempty)
  have IH: "foldl (chunk_step p t) acc offs =
         acc @ map (\<lambda>j. \<lparr>texto = str_join '' '' (take (nat t) (drop (offs ! j) p)),
                          indice = length acc + j, posicao_inicial = offs ! j\<rparr>) [0..<length offs]"
    using snoc by simp
  have step: "chunk_step p t cs' i =
      cs' @ [\<lparr>texto = str_join '' '' ?w, indice = length cs', posicao_inicial = i\<rparr>]" for cs'
    using ne assms(1) by (simp add: chunk_step_def py_slice_window)
  have "map (\<lambda>j. \<lparr>texto = str_join '' '' (take (nat t) (drop ((offs @ [i]) ! j) p)),
                          indice = length acc + j, posicao_inicial = (offs @ [i]) ! j\<rparr>) [0..<length offs]
      = map (\<lambda>j. \<lparr>texto = str_join '' '' (take (nat t) (drop (offs ! j) p)),
                          indice = length acc + j, posicao_inicial = offs ! j\<rparr>) [0..<length offs]"
    by (simp add: nth_append)
  then show ?case
    by (simp only: foldl_append foldl.simps step IH) simp
qed

lemma range_offsets_bound:
  assumes "0 < s" "k < (n + s - 1) div s"
  shows "k * s < (n::nat)"
proof -
  from assms(2) have "Suc k \<le> (n + s - 1) div s" by simp
  then have "Suc k * s \<le> n + s - 1"
    using assms(1) by (simp add: less_eq_div_iff_mult_less_eq)
  then show ?thesis using assms(1) by simp
qed

lemma dividir_em_chunks_windows:
  assumes "0 < ov" "ov < t" "dividir_em_chunks doc t ov = Inr cs"
  shows "cs = map (\<lambda>k. \<lparr>texto = str_join '' '' (take (nat t) (drop (k * nat (t - ov)) (str_split doc))),
                         indice = k, posicao_inicial = k * nat (t - ov)\<rparr>)
                  [0..<(length (str_split doc) + nat (t - ov) - 1) div nat (t - ov)]"
proof -
  let ?p = "str_split doc" and ?s = "nat (t - ov)"
  let ?m = "(length ?p + ?s - 1) div ?s"
  let ?offs = "map (\<lambda>k. k * ?s) [0..<?m]"
  from assms have s: "0 < ?s" and t: "0 < t" by simp_all
  have r: "py_range0 (length ?p) (t - ov) = Inr ?offs"
    using assms by (simp add: py_range0_def)
  have b: "\<forall>i\<in>set ?offs. i < length ?p"
    using range_offsets_bound[OF s] by auto
  have "cs = foldl (chunk_step ?p t) [] ?offs"
    using assms(3) r by (simp add: dividir_em_chunks_def Let_def)
  also have "\<dots> = [] @ map (\<lambda>j. \<lparr>texto = str_join '' '' (take (nat t) (drop (?offs ! j) ?p)),
                          indice = length ([]::chunk list) + j, posicao_inicial = ?offs ! j\<rparr>) [0..<length ?offs]"
    using t str_split_wordlike b by (rule foldl_chunk_step_windows)
  also have "\<dots> = map (\<lambda>k. \<lparr>texto = str_join '' '' (take (nat t) (drop (k * ?s) ?p)),
                         indice = k, posicao_inicial = k * ?s\<rparr>) [0..<?m]"
    by simp
  finally show ?thesis .
qed


lemma window_overlap_arith:
  fixes n a s v T :: nat
  assumes "a + s < n" "T = s + v"
  shows "a + min T (n - a) - (a + s) = min v (n - (a + s))"
  using assms by (simp add: min_def) arith

lemma chunks_exemplo:
  "dividir_em_chunks ''a b c d e'' 4 2 =
     Inr [\<lparr>texto = ''a b c d'', indice = 0, posicao_inicial = 0\<rparr>,
          \<lparr>texto = ''c d e'', indice = 1, posicao_inicial = 2\<rparr>,
          \<lparr>texto = ''e'', indice = 2, posicao_inicial = 4\<rparr>]"
  by (simp add: dividir_em_chunks_def str_split_def isspace_def py_range0_def chunk_step_def
       py_slice_def slice_bound_def str_strip_def Let_def upt_rec)

text \<open>
  C2 (as the code has it). The stride of the chunker is \<open>tamanho_chunk - sobreposicao\<close>
  with no lower bound: when the overlap equals the chunk size the zero step makes
  \<open>range\<close> raise \<open>ValueError\<close>, and when the overlap is larger the negative step makes the
  loop run over nothing, so that no chunk is emitted at all. On the two-word text
  \<open>a b\<close> a stride guarded at 1 would give the chunks \<open>a\<close> and \<open>b\<close>.
\<close>

theorem dividir_em_chunks_passo_sem_guarda:
  "dividir_em_chunks ''a b'' 1 1 = Inl ValueError \<and> dividir_em_chunks ''a b'' 1 2 = Inr []
   \<and> dividir_em_chunks ''a b'' 2 1 =
       Inr [\<lparr>texto = ''a b'', indice = 0, posicao_inicial = 0\<rparr>,
            \<lparr>texto = ''b'', indice = 1, posicao_inicial = 1\<rparr>]"
  by (simp add: dividir_em_chunks_def str_split_def isspace_def py_range0_def chunk_step_def
       py_slice_def slice_bound_def str_strip_def Let_def upt_rec)

text \<open>
  C5 (as stated) fails at the end of the corpus: with five words, chunks of four words
  and an overlap of two, the second chunk holds the words at offsets 2 to 4 and the
  third starts at offset 4, so the two share one word, not two.
\<close>

theorem dividir_em_chunks_sobreposicao_counterexample:
  "dividir_em_chunks ''a b c d e'' 4 2 =
     Inr [\<lparr>texto = ''a b c d'', indice = 0, posicao_inicial = 0\<rparr>,
          \<lparr>texto = ''c d e'', indice = 1, posicao_inicial = 2\<rparr>,
          \<lparr>texto = ''e'', indice = 2, posicao_inicial = 4\<rparr>]
   \<and> palavras_compartilhadas \<lparr>texto = ''c d e'', indice = 1, posicao_inicial = 2\<rparr>
          \<lparr>texto = ''e'', indice = 2, posicao_inicial = 4\<rparr> = 1"
  by (simp add: chunks_exemplo palavras_compartilhadas_def str_split_def isspace_def)

text \<open>
  C5 (amended). Whenever the chunker returns a list, the field \<open>indice\<close> of its chunks
  counts 0, 1, 2, ... without a gap. When \<open>0 < sobreposicao < tamanho_chunk\<close>, two
  consecutive chunks share \<open>min sobreposicao r\<close> words, where \<open>r\<close> is the number of words
  of the corpus from the start of the later chunk on: the words of the earlier chunk
  after its first \<open>tamanho_chunk - sobreposicao\<close> are the first words of the later one.
  They share exactly \<open>sobreposicao\<close> words when the earlier chunk is full, that is
  holds \<open>tamanho_chunk\<close> words.
\<close>

theorem dividir_em_chunks_indices_sobreposicao:
  assumes "dividir_em_chunks doc t ov = Inr cs"
  shows "map indice cs = [0..<length cs] \<and>
     (0 < ov \<and> ov < t \<and> Suc k < length cs \<longrightarrow>
        palavras_compartilhadas (cs ! k) (cs ! Suc k)
          = min (nat ov) (length (str_split doc) - posicao_inicial (cs ! Suc k))
        \<and> drop (nat (t - ov)) (str_split (texto (cs ! k)))
          = take (palavras_compartilhadas (cs ! k) (cs ! Suc k)) (str_split (texto (cs ! Suc k)))
        \<and> (length (str_split (texto (cs ! k))) = nat t \<longrightarrow>
             palavras_compartilhadas (cs ! k) (cs ! Suc k) = nat ov))"
proof (intro conjI impI)
  have "cs = foldl (chunk_step (str_split doc) t) [] (projr (py_range0 (length (str_split doc)) (t - ov)))"
    using assms by (auto simp: dividir_em_chunks_def Let_def split: sum.splits)
  then show "map indice cs = [0..<length cs]"
    using foldl_chunk_step_indices[of "[]"] by simp
next
  assume h: "0 < ov \<and> ov < t \<and> Suc k < length cs"
  define p where "p = str_split doc"
  define s where "s = nat (t - ov)"
  define T where "T = nat t"
  define n where "n = length p"
  define c where "c = (\<lambda>k. \<lparr>texto = str_join '' '' (take T (drop (k * s) p)),
                         indice = k, posicao_inicial = k * s\<rparr>)"
  from h have s: "0 < s" and Ts: "T = s + nat ov" by (auto simp: s_def T_def)
  have cs: "cs = map c [0..<(n + s - 1) div s]"
    unfolding c_def T_def s_def n_def p_def
    using h assms by (intro dividir_em_chunks_windows) simp_all
  with h have km: "Suc k < (n + s - 1) div s" by simp
  with s have "Suc k * s < n" by (intro range_offsets_bound)
  then have lt: "k * s + s < n" by (simp add: add.commute)
  have wl: "\<forall>w\<in>set p. wordlike w"
    unfolding p_def by (rule str_split_wordlike)
  have w: "str_split (texto (c j)) = take T (drop (j * s) p)" for j
  proof -
    have "\<forall>w\<in>set (take T (drop (j * s) p)). wordlike w"
      using wl by (meson in_set_dropD in_set_takeD)
    then show ?thesis by (simp add: c_def str_split_join)
  qed
  have ck: "cs ! k = c k" "cs ! Suc k = c (Suc k)"
    using km by (simp_all add: cs del: upt_Suc)
  have pos: "posicao_inicial (c j) = j * s" for j by (simp add: c_def)
  have len: "length (str_split (texto (c k))) = min T (n - k * s)"
    by (simp add: w n_def min.commute)
  have sh: "palavras_compartilhadas (c k) (c (Suc k)) = min (nat ov) (n - (k * s + s))"
    unfolding palavras_compartilhadas_def pos len
    using window_overlap_arith[OF lt Ts] by (simp add: add.commute)
  show "palavras_compartilhadas (cs ! k) (cs ! Suc k)
          = min (nat ov) (length (str_split doc) - posicao_inicial (cs ! Suc k))"
    unfolding ck sh pos by (simp add: n_def p_def add.commute)
  have "drop s (take T (drop (k * s) p)) = take (nat ov) (drop (k * s + s) p)"
    by (simp add: drop_take Ts add.commute)
  also have "\<dots> = take (min (nat ov) (n - (k * s + s))) (drop (k * s + s) p)"
    by (simp add: n_def min_def)
  also have "\<dots> = take (min (nat ov) (n - (k * s + s))) (take T (drop (k * s + s) p))"
    by (simp add: Ts min_def)
  finally show "drop (nat (t - ov)) (str_split (texto (cs ! k)))
          = take (palavras_compartilhadas (cs ! k) (cs ! Suc k)) (str_split (texto (cs ! Suc k)))"
    unfolding ck sh w by (simp add: s_def add.commute)
  show "palavras_compartilhadas (cs ! k) (cs ! Suc k) = nat ov"
    if "length (str_split (texto (cs ! k))) = nat t"
  proof -
    from that have "min T (n - k * s) = T" unfolding ck len by (simp add: T_def)
    then have "T \<le> n - k * s" by (simp add: min_def split: if_splits)
    with lt have "nat ov \<le> n - (k * s + s)" by (simp add: Ts)
    then show ?thesis unfolding ck sh by simp
  qed
qed

theorem dividir_em_chunks_indices_sobreposicao_witness:
  "dividir_em_chunks ''a b c d e'' 4 2 =
     Inr [\<lparr>texto = ''a b c d'', indice = 0, posicao_inicial = 0\<rparr>,
          \<lparr>texto = ''c d e'', indice = 1, posicao_inicial = 2\<rparr>,
          \<lparr>texto = ''e'', indice = 2, posicao_inicial = 4\<rparr>]
   \<and> map indice [\<lparr>texto = ''a b c d'', indice = 0, posicao_inicial = 0\<rparr>,
          \<lparr>texto = ''c d e'', indice = 1, posicao_inicial = 2\<rparr>,
          \<lparr>texto = ''e'', indice = 2, posicao_inicial = 4\<rparr>] = [0, 1, 2]
   \<and> palavras_compartilhadas \<lparr>texto = ''a b c d'', indice = 0, posicao_inicial = 0\<rparr>
          \<lparr>texto = ''c d e'', indice = 1, posicao_inicial = 2\<rparr> = 2
   \<and> drop 2 (str_split ''a b c d'') = take 2 (str_split ''c d e'')"
proof -
  let ?c0 = "\<lparr>texto = ''a b c d'', indice = 0, posicao_inicial = 0\<rparr>"
  let ?c1 = "\<lparr>texto = ''c d e'', indice = 1, posicao_inicial = 2\<rparr>"
  let ?c2 = "\<lparr>texto = ''e'', indice = 2, posicao_inicial = 4\<rparr>"
  let ?cs = "[?c0, ?c1, ?c2]"
  note t = dividir_em_chunks_indices_sobreposicao [OF chunks_exemplo, of 0]
  have nth: "?cs ! 0 = ?c0" "?cs ! Suc 0 = ?c1" by simp_all
  have h: "(0::int) < 2 \<and> (2::int) < 4 \<and> Suc 0 < length ?cs" by simp
  have w0: "str_split ''a b c d'' = [''a'', ''b'', ''c'', ''d'']"
    by (simp add: str_split_def isspace_def)
  have w1: "str_split ''c d e'' = [''c'', ''d'', ''e'']"
    by (simp add: str_split_def isspace_def)
  have full: "length (str_split (texto (?cs ! 0))) = nat 4"
    by (simp add: w0)
  from t have "map indice ?cs = [0..<length ?cs]" by (rule conjunct1)
  then have a: "map indice ?cs = [0, 1, 2]" by (simp add: upt_rec)
  from t h have "palavras_compartilhadas (?cs ! 0) (?cs ! Suc 0) = nat 2"
    using full by blast
  then have b: "palavras_compartilhadas ?c0 ?c1 = 2" by (simp only: nth)
  have c: "drop 2 (str_split ''a b c d'') = take 2 (str_split ''c d e'')"
    by (simp add: w0 w1)
  show ?thesis using chunks_exemplo a b c by blast
qed

section \<open>Empty corpus and the indexer\<close>

lemma dividir_em_chunks_vazio:
  "dividir_em_chunks [] t ov = (if t = ov then Inl ValueError else Inr [])"
  by (simp add: dividir_em_chunks_def py_range0_def str_split_def)

lemma criar_indice_similaridade_None:
  "(criar_indice_similaridade p cs = None) =
     (cs = [] \<or> \<not> list_ex (\<lambda>c. tem_token (str_lower (texto c))) cs)"
  by (simp add: criar_indice_similaridade_def fit_transform_def list_ex_iff split: sum.splits)

text \<open>
  C3. On the empty corpus the chunker returns the empty list (with the sizes 1000 and
  200 of the loader, and with every other pair of sizes that differ), the indexer
  returns the sentinel \<open>None\<close> on the empty chunk list, and the retrieve operation
  returns the empty list for every query and every \<open>top_k\<close>, both on any data whose
  index is the sentinel and on the data the loader builds from the empty corpus.
\<close>

theorem corpus_vazio_sem_resultados:
  "dividir_em_chunks '''' 1000 200 = Inr []
   \<and> dividir_em_chunks '''' t ov = (if t = ov then Inl ValueError else Inr [])
   \<and> criar_indice_similaridade p [] = None
   \<and> buscar_informacoes_relevantes consulta None top_k = []
   \<and> buscar_informacoes_relevantes consulta (Some (d\<lparr>indice_similaridade := None\<rparr>)) top_k = []
   \<and> processar_md_com_rag p '''' \<noteq> None
   \<and> buscar_informacoes_relevantes consulta (processar_md_com_rag p '''') top_k = []"
  by (simp add: dividir_em_chunks_vazio criar_indice_similaridade_def
        buscar_informacoes_relevantes_def processar_md_com_rag_def)

text \<open>
  C4 (as stated) fails: the one-letter corpus \<open>a\<close> yields one chunk, the vectorizer
  finds no token of two or more word characters in it, fitting raises, and the
  indexer catches the exception and returns the sentinel.
\<close>

theorem criar_indice_similaridade_counterexample:
  "dividir_em_chunks ''a'' 1000 200 = Inr [\<lparr>texto = ''a'', indice = 0, posicao_inicial = 0\<rparr>]
   \<and> (\<forall>p. criar_indice_similaridade p [\<lparr>texto = ''a'', indice = 0, posicao_inicial = 0\<rparr>] = None)"
  by (simp add: dividir_em_chunks_def str_split_def isspace_def py_range0_def chunk_step_def
       py_slice_def slice_bound_def str_strip_def Let_def upt_rec
       criar_indice_similaridade_def fit_transform_def str_lower_def)

text \<open>
  C4 (amended). The indexer never raises. It returns the sentinel exactly when the
  chunk sequence is empty or no chunk holds a token, that is a run of two or more word
  characters (then fitting the vectorizer raises, and the exception is caught). For
  every chunk sequence with a token in some chunk it returns an index over exactly
  that sequence.
\<close>

theorem criar_indice_similaridade_sentinela:
  "(criar_indice_similaridade p cs = None) =
     (cs = [] \<or> \<not> list_ex (\<lambda>c. tem_token (str_lower (texto c))) cs)
   \<and> (case criar_indice_similaridade p cs of None \<Rightarrow> True | Some ind \<Rightarrow> chunks ind = cs)"
  by (simp add: criar_indice_similaridade_None)
     (simp add: criar_indice_similaridade_def split: sum.splits)

theorem criar_indice_similaridade_sentinela_witness:
  "criar_indice_similaridade (\<lambda>textos. (\<lambda>s. [1], [[1]])) [\<lparr>texto = ''ab'', indice = 0, posicao_inicial = 0\<rparr>] \<noteq> None
   \<and> criar_indice_similaridade (\<lambda>textos. (\<lambda>s. [1], [[1]])) [] = None"
  using criar_indice_similaridade_sentinela [of "\<lambda>textos. (\<lambda>s. [1], [[1]])" "[\<lparr>texto = ''ab'', indice = 0, posicao_inicial = 0\<rparr>]"]
        criar_indice_similaridade_sentinela [of "\<lambda>textos. (\<lambda>s. [1], [[1]])" "[]"]
  by (simp add: str_lower_def lower_char_def word_char_def)


section \<open>Properties of the table extractor\<close>

lemma ultimas_secoes_drop: "ultimas_secoes xs = drop (length xs - 5) xs"
proof -
  have "nat (int (length xs) - 5) = length xs - 5" by simp
  then show ?thesis by (simp add: ultimas_secoes_def py_slice_def slice_bound_def)
qed

lemma startswith_longer: "length s < length sub \<Longrightarrow> \<not> startswith s sub"
  by (induction s sub rule: startswith.induct) simp_all

lemma str_in_longer: "length s < length sub \<Longrightarrow> \<not> str_in sub s"
  by (induction s) (auto simp: startswith_longer)

lemma replicate_200: "replicate 200 x = x # replicate 199 x"
proof -
  have "(200::nat) = Suc 199" by simp
  then show ?thesis by (simp only: replicate_Suc)
qed

lemma foldl_tabela_step:
  "foldl tabela_step acc secs =
     acc @ map (\<lambda>sec. \<lparr>conteudo = ''Dados num'' @ [CHR 0xE9] @ ''ricos encontrados: '' @
                                 str_join '', '' (take 10 (findall_padrao_tabela sec)),
                      secao = (if length sec > 200 then take 200 sec @ ''...'' else sec),
                      dados_numericos = take 10 (findall_padrao_tabela sec)\<rparr>)
             (filter (\<lambda>sec. findall_padrao_tabela sec \<noteq> []) secs)"
  by (induction secs arbitrary: acc) (simp_all add: tabela_step_def Let_def)

lemma findall_aux_sem_digitos:
  "\<forall>c\<in>set s. \<not> isdecimal c \<Longrightarrow> findall_aux 0 s = []"
  by (induction s) (simp_all add: match_numero_def)

lemma split_sep_aux_sem_separador:
  "hd sep \<notin> set s \<Longrightarrow> sep \<noteq> [] \<Longrightarrow> split_sep_aux sep 0 cur s = [cur @ s]"
proof (induction s arbitrary: cur)
  case Nil
  then show ?case by simp
next
  case (Cons c s)
  then have "\<not> startswith (c # s) sep" by (cases sep) auto
  with Cons show ?case by simp
qed

lemma tabela_exemplo:
  "extrair_tabelas_do_md (CHR ''1'' # replicate 200 (CHR ''a'')) =
     [\<lparr>conteudo = ''Dados num'' @ [CHR 0xE9] @ ''ricos encontrados: 1'',
       secao = CHR ''1'' # replicate 199 (CHR ''a'') @ ''...'',
       dados_numericos = [''1'']\<rparr>]"
proof -
  let ?doc = "CHR ''1'' # replicate 200 (CHR ''a'')"
  have "split_sep_aux ([CHR 0x0A] @ ''---'') 0 [] ?doc = [[] @ ?doc]"
    by (rule split_sep_aux_sem_separador) simp_all
  then have s: "str_split_sep ([CHR 0x0A] @ ''---'') ?doc = [?doc]"
    by (simp add: str_split_sep_def)
  have "findall_aux 0 (replicate 200 (CHR ''a'')) = []"
    by (rule findall_aux_sem_digitos) (simp add: isdecimal_def)
  moreover have "match_numero ?doc = 1"
    by (simp add: match_numero_def isdecimal_def replicate_200)
  moreover have "match_seguintes (replicate 200 (CHR ''a'')) = 0"
    by (subst match_seguintes.simps) (simp add: isspace_def replicate_200)
  ultimately have f: "findall_padrao_tabela ?doc = [''1'']"
    by (simp add: findall_padrao_tabela_def)
  have t: "take 200 ?doc = CHR ''1'' # replicate 199 (CHR ''a'')"
    by (simp add: take_Cons')
  show ?thesis
    unfolding extrair_tabelas_do_md_def s ultimas_secoes_drop
    by (simp add: tabela_step_def f t)
qed

text \<open>
  C9 (as stated) fails on the excerpt: for a section of 201 characters the candidate's
  excerpt is its first 200 characters followed by three dots, 203 characters in all,
  which is not a substring of the section.
\<close>

theorem extrair_tabelas_do_md_counterexample:
  "map (\<lambda>t. length (secao t)) (extrair_tabelas_do_md (CHR ''1'' # replicate 200 (CHR ''a''))) = [203]
   \<and> map (\<lambda>t. str_in (secao t) (CHR ''1'' # replicate 200 (CHR ''a'')))
        (extrair_tabelas_do_md (CHR ''1'' # replicate 200 (CHR ''a''))) = [False]"
proof -
  have "\<not> str_in (CHR ''1'' # replicate 199 (CHR ''a'') @ ''...'')
                 (CHR ''1'' # replicate 200 (CHR ''a''))"
    by (rule str_in_longer) simp
  then show ?thesis unfolding tabela_exemplo by simp
qed

text \<open>
  C9 (amended). The text is split at the delimiter (a line feed and three hyphens) and
  only the last five pieces are inspected. Each inspected piece with at least one
  numeric run gives one candidate, in order, with the first ten runs at most as its
  numeric tokens. The excerpt is the whole piece when it has at most 200 characters,
  and otherwise its first 200 characters followed by three dots, so that it never
  exceeds 203 characters.
\<close>

theorem extrair_tabelas_do_md_candidatos:
  "map (\<lambda>t. (secao t, dados_numericos t)) (extrair_tabelas_do_md texto_md) =
     map (\<lambda>sec. (if length sec > 200 then take 200 sec @ ''...'' else sec,
                  take 10 (findall_padrao_tabela sec)))
       (filter (\<lambda>sec. findall_padrao_tabela sec \<noteq> [])
          (drop (length (str_split_sep ([CHR 0x0A] @ ''---'') texto_md) - 5)
             (str_split_sep ([CHR 0x0A] @ ''---'') texto_md)))
   \<and> (\<forall>t\<in>set (extrair_tabelas_do_md texto_md).
         dados_numericos t \<noteq> [] \<and> length (dados_numericos t) \<le> 10 \<and> length (secao t) \<le> 203)"
  unfolding extrair_tabelas_do_md_def ultimas_secoes_drop foldl_tabela_step
  by (auto simp: comp_def)

theorem extrair_tabelas_do_md_candidatos_witness:
  "map (\<lambda>t. (secao t, dados_numericos t)) (extrair_tabelas_do_md (CHR ''1'' # replicate 200 (CHR ''a'')))
     = [(CHR ''1'' # replicate 199 (CHR ''a'') @ ''...'', [''1''])]
   \<and> length (CHR ''1'' # replicate 199 (CHR ''a'') @ ''...'') \<le> 203"
proof -
  note t = extrair_tabelas_do_md_candidatos [of "CHR ''1'' # replicate 200 (CHR ''a'')"]
  from t have "\<forall>t\<in>set (extrair_tabelas_do_md (CHR ''1'' # replicate 200 (CHR ''a''))).
         dados_numericos t \<noteq> [] \<and> length (dados_numericos t) \<le> 10 \<and> length (secao t) \<le> 203"
    by (rule conjunct2)
  then have "length (CHR ''1'' # replicate 199 (CHR ''a'') @ ''...'') \<le> 203"
    unfolding tabela_exemplo by simp
  then show ?thesis by (simp add: tabela_exemplo)
qed


section \<open>Properties of the section extractor\<close>

lemma secoes_append_novo:
  "nome \<notin> fst ` set d \<Longrightarrow> secoes_append d nome v = d @ [(nome, [v])]"
  by (induction d) auto

lemma secoes_append_ultimo:
  "nome \<notin> fst ` set d \<Longrightarrow> secoes_append (d @ [(nome, vs)]) nome v = d @ [(nome, vs @ [v])]"
  by (induction d) auto

lemma foldl_secoes_append_ultimo:
  "nome \<notin> fst ` set d \<Longrightarrow>
   foldl (\<lambda>d m. secoes_append d nome (f m)) (d @ [(nome, vs)]) ms = d @ [(nome, vs @ map f ms)]"
  by (induction ms arbitrary: vs) (simp_all add: secoes_append_ultimo)

lemma foldl_secoes_append:
  assumes "nome \<notin> fst ` set d"
  shows "foldl (\<lambda>d m. secoes_append d nome (f m)) d ms =
         (if ms = [] then d else d @ [(nome, map f ms)])"
proof (cases ms)
  case Nil
  then show ?thesis by simp
next
  case (Cons m ms')
  with assms foldl_secoes_append_ultimo[OF assms, of f "[f m]" ms'] show ?thesis
    by (simp add: secoes_append_novo)
qed

lemma disjoint_insert_subset:
  "A \<subseteq> insert k C \<Longrightarrow> k \<notin> B \<Longrightarrow> C \<inter> B = {} \<Longrightarrow> A \<inter> B = {}"
  by auto

lemma foldl_secao_step:
  assumes "distinct (map fst tab)" "fst ` set d \<inter> fst ` set tab = {}"
  shows "foldl (secao_step t) d tab =
         d @ map (\<lambda>np. (fst np, map (contexto_match t) (re_finditer (snd np) t)))
               (filter (\<lambda>np. re_finditer (snd np) t \<noteq> []) tab)"
  using assms
proof (induction tab arbitrary: d)
  case Nil
  then show ?case by simp
next
  case (Cons np tab)
  let ?d' = "secao_step t d np"
  from Cons.prems have n: "fst np \<notin> fst ` set d" by auto
  have d': "?d' = (if re_finditer (snd np) t = [] then d
                   else d @ [(fst np, map (contexto_match t) (re_finditer (snd np) t))])"
    unfolding secao_step_def using n by (rule foldl_secoes_append)
  have sub: "fst ` set ?d' \<subseteq> insert (fst np) (fst ` set d)"
    by (auto simp: d')
  from Cons.prems have a: "fst np \<notin> fst ` set tab" "fst ` set d \<inter> fst ` set tab = {}"
    by auto
  from sub a have dj: "fst ` set ?d' \<inter> fst ` set tab = {}"
    by (rule disjoint_insert_subset)
  from Cons.prems have "distinct (map fst tab)" by simp
  from this dj have IH': "foldl (secao_step t) ?d' tab =
         ?d' @ map (\<lambda>np. (fst np, map (contexto_match t) (re_finditer (snd np) t)))
               (filter (\<lambda>np. re_finditer (snd np) t \<noteq> []) tab)"
    by (rule Cons.IH)
  have unf: "foldl (secao_step t) d (np # tab) = foldl (secao_step t) ?d' tab" by simp
  show ?case
  proof (cases "re_finditer (snd np) t = []")
    case True
    with d' have "?d' = d" by simp
    with IH' True show ?thesis unfolding unf by simp
  next
    case False
    with d' have "?d' = d @ [(fst np, map (contexto_match t) (re_finditer (snd np) t))]" by simp
    with IH' False show ?thesis unfolding unf by simp
  qed
qed

lemma contexto_match_janela:
  "contexto_match t (s, e) = take (min (length t) (e + 500) - (s - 500)) (drop (s - 500) t)"
proof -
  have i: "nat (max 0 (int s - 500)) = s - 500" by simp
  have f: "nat (min (int (length t)) (int e + 500)) = min (length t) (e + 500)" by simp
  have "\<not> max 0 (int s - 500) < 0" "\<not> min (int (length t)) (int e + 500) < 0" by simp_all
  then have "contexto_match t (s, e) =
      take (min (length t) (min (length t) (e + 500)) - min (length t) (s - 500))
        (drop (min (length t) (s - 500)) t)"
    unfolding contexto_match_def py_slice_def slice_bound_def Let_def fst_conv snd_conv
    by (simp only: if_False i f)
  also have "\<dots> = take (min (length t) (e + 500) - (s - 500)) (drop (s - 500) t)"
    by (cases "s - 500 \<le> length t") (simp_all add: min_def)
  finally show ?thesis .
qed

lemma padroes_secoes_distinct: "distinct (map fst padroes_secoes)"
  by (simp add: padroes_secoes_def)

text \<open>
  C8. The mapping that \<open>extrair_secoes_importantes\<close> returns has one key for each topic
  whose pattern matches at least once, in the order of the table, and no other key;
  under that key stands, for each match in order, the text from
  \<open>max(0, start - 500)\<close> to \<open>min(len, end + 500)\<close>. A topic without a match has no key,
  and a corpus without any match gives the empty mapping.
\<close>

theorem extrair_secoes_importantes_contextos:
  "extrair_secoes_importantes t =
     map (\<lambda>np. (fst np,
                 map (\<lambda>m. take (min (length t) (snd m + 500) - (fst m - 500))
                              (drop (fst m - 500) t))
                   (re_finditer (snd np) t)))
       (filter (\<lambda>np. re_finditer (snd np) t \<noteq> []) padroes_secoes)
   \<and> distinct (map fst (extrair_secoes_importantes t))
   \<and> (map_of (extrair_secoes_importantes t) nome = None) =
       (list_all (\<lambda>np. fst np = nome \<longrightarrow> re_finditer (snd np) t = []) padroes_secoes)"
proof -
  let ?f = "\<lambda>np. (fst np, map (contexto_match t) (re_finditer (snd np) t))"
  let ?P = "\<lambda>np. re_finditer (snd np) t \<noteq> []"
  have "extrair_secoes_importantes t = [] @ map ?f (filter ?P padroes_secoes)"
    unfolding extrair_secoes_importantes_def
    by (rule foldl_secao_step) (simp_all add: padroes_secoes_distinct)
  then have e: "extrair_secoes_importantes t = map ?f (filter ?P padroes_secoes)" by simp
  have c: "contexto_match t = (\<lambda>m. take (min (length t) (snd m + 500) - (fst m - 500))
                              (drop (fst m - 500) t))"
    by (rule ext) (simp add: contexto_match_janela[symmetric])
  have k: "map fst (extrair_secoes_importantes t) = map fst (filter ?P padroes_secoes)"
    by (simp add: e comp_def)
  have d: "distinct (map fst (extrair_secoes_importantes t))"
    unfolding k using padroes_secoes_distinct by (rule distinct_map_filter)
  have "fst ` set (extrair_secoes_importantes t) = set (map fst (extrair_secoes_importantes t))"
    by simp
  also have "\<dots> = set (map fst (filter ?P padroes_secoes))" by (simp only: k)
  also have "\<dots> = fst ` set (filter ?P padroes_secoes)" by simp
  finally have k2: "fst ` set (extrair_secoes_importantes t) = fst ` set (filter ?P padroes_secoes)" .
  have "(map_of (extrair_secoes_importantes t) nome = None) =
        (nome \<notin> fst ` set (filter ?P padroes_secoes))"
    by (simp only: map_of_eq_None_iff k2)
  also have "\<dots> = list_all (\<lambda>np. fst np = nome \<longrightarrow> re_finditer (snd np) t = []) padroes_secoes"
    by (auto simp: list_all_iff)
  finally have m: "(map_of (extrair_secoes_importantes t) nome = None) =
       (list_all (\<lambda>np. fst np = nome \<longrightarrow> re_finditer (snd np) t = []) padroes_secoes)" .
  from e have e': "extrair_secoes_importantes t =
     map (\<lambda>np. (fst np,
                 map (\<lambda>m. take (min (length t) (snd m + 500) - (fst m - 500))
                              (drop (fst m - 500) t))
                   (re_finditer (snd np) t)))
       (filter (\<lambda>np. re_finditer (snd np) t \<noteq> []) padroes_secoes)"
    by (simp only: c)
  show ?thesis by (intro conjI e' d m)
qed

theorem extrair_secoes_importantes_contextos_witness:
  "extrair_secoes_importantes ''dados'' = [(''tabelas'', [''dados''])]
   \<and> extrair_secoes_importantes ''xyz'' = []
   \<and> map_of (extrair_secoes_importantes ''dados'') ''metodologia'' = None"
proof -
  note t1 = extrair_secoes_importantes_contextos [of "''dados''" "''metodologia''"]
  note t2 = extrair_secoes_importantes_contextos [of "''xyz''" "''metodologia''"]
  have r1: "map (\<lambda>np. (fst np,
                 map (\<lambda>m. take (min (length ''dados'') (snd m + 500) - (fst m - 500))
                              (drop (fst m - 500) ''dados''))
                   (re_finditer (snd np) ''dados'')))
       (filter (\<lambda>np. re_finditer (snd np) ''dados'' \<noteq> []) padroes_secoes)
     = [(''tabelas'', [''dados''])]"
    by code_simp
  have r2: "map (\<lambda>np. (fst np,
                 map (\<lambda>m. take (min (length ''xyz'') (snd m + 500) - (fst m - 500))
                              (drop (fst m - 500) ''xyz''))
                   (re_finditer (snd np) ''xyz'')))
       (filter (\<lambda>np. re_finditer (snd np) ''xyz'' \<noteq> []) padroes_secoes)
     = []"
    by code_simp
  from t1 r1 have a: "extrair_secoes_importantes ''dados'' = [(''tabelas'', [''dados''])]"
    by (simp only:)
  from t2 r2 have b: "extrair_secoes_importantes ''xyz'' = []"
    by (simp only:)
  have c: "map_of (extrair_secoes_importantes ''dados'') ''metodologia'' = None"
    unfolding a by simp
  show ?thesis by (intro conjI a b c)
qed


section \<open>Properties of the retriever\<close>

subsection \<open>Scores\<close>







subsection \<open>The three passes\<close>




lemma passo_primario_filter:
  "passo_primario sims cs idxs res =
     (if list_all (\<lambda>i. i < length cs) (filter (\<lambda>i. sims ! i > 5 / 100) idxs)
      then Inr (res @ map (\<lambda>i. \<lparr>chunk = cs ! i, similaridade = sims ! i,
                                  texto_res = texto (cs ! i),
                                  fonte = Some (fonte_documento (texto (cs ! i)) i)\<rparr>)
                        (filter (\<lambda>i. sims ! i > 5 / 100) idxs))
      else Inl IndexError)"
  by (induction idxs arbitrary: res) simp_all

lemma fonte_documento_cases:
  "fonte_documento s i = ''BNCC'' \<or> fonte_documento s i = ''DCRC''"
  by (simp add: fonte_documento_def)

lemma fonte_habilidade_cases:
  "fonte_habilidade s i = ''BNCC'' \<or> fonte_habilidade s i = ''DCRC''"
  by (simp add: fonte_habilidade_def)

lemma passo_habilidades_inv:
  assumes "\<forall>r\<in>set res. P r"
    and "\<And>c i. P \<lparr>chunk = c, similaridade = 4 / 10, texto_res = texto c,
                    fonte = Some (fonte_habilidade (texto c) i)\<rparr>"
  shows "\<forall>r\<in>set (passo_habilidades k ics res). P r"
  using assms(1)
proof (induction k ics res rule: passo_habilidades.induct)
  case (1 k res)
  then show ?case by simp
next
  case (2 k i c resto res)
  let ?r = "\<lparr>chunk = c, similaridade = 4 / 10, texto_res = texto c,
             fonte = Some (fonte_habilidade (texto c) i)\<rparr>"
  have new: "\<forall>r\<in>set (res @ [?r]). P r" using "2.prems" assms(2) by simp
  show ?case
  proof (cases "list_ex (\<lambda>palavra. str_in palavra (str_lower (texto c))) palavras_habilidade
         \<and> \<not> list_ex (\<lambda>r. indice (chunk r) = indice c) res")
    case False
    then show ?thesis using "2.IH"(2) "2.prems" by auto
  next
    case True
    show ?thesis
    proof (cases "int (length res) + 1 \<ge> k * 2")
      case True
      with \<open>list_ex _ _ \<and> _\<close> new show ?thesis by simp
    next
      case False
      with \<open>list_ex _ _ \<and> _\<close> "2.IH"(1) new show ?thesis by simp
    qed
  qed
qed

lemma passo_palavras_chave_inv:
  assumes "\<forall>r\<in>set res. P r"
    and "\<And>c. P \<lparr>chunk = c, similaridade = 3 / 10, texto_res = texto c, fonte = None\<rparr>"
  shows "\<forall>r\<in>set (passo_palavras_chave k ws cs res). P r"
  using assms(1)
proof (induction k ws cs res rule: passo_palavras_chave.induct)
  case (1 k ws res)
  then show ?case by simp
next
  case (2 k ws c resto res)
  let ?r = "\<lparr>chunk = c, similaridade = 3 / 10, texto_res = texto c, fonte = None\<rparr>"
  have new: "\<forall>r\<in>set (res @ [?r]). P r" using "2.prems" assms(2) by simp
  show ?case
  proof (cases "list_ex (\<lambda>palavra. str_in palavra (str_lower (texto c))) ws")
    case False
    then show ?thesis using "2.IH"(2) "2.prems" by simp
  next
    case True
    show ?thesis
    proof (cases "int (length res) + 1 \<ge> k")
      case True
      with \<open>list_ex _ ws\<close> new show ?thesis by simp
    next
      case False
      with \<open>list_ex _ ws\<close> "2.IH"(1) new show ?thesis by simp
    qed
  qed
qed


subsection \<open>Two retrievals, step by step\<close>

lemma norma_1: "norma [1] = 1" "norma [0] = 0"
  by (simp_all add: norma_def)

lemma vetor_bcd: "vetor_do_termo ''abcdef'' (expandir_consulta ''bcd'') = [0]"
  by code_simp

lemma vetor_xy: "vetor_do_termo ''xy'' (expandir_consulta ''xy'') = [1]"
  by code_simp

lemma hab: "consulta_habilidade ''bcd'' = False" "consulta_habilidade ''xy'' = False"
  by code_simp+

lemma cos_abcdef: "cosine_similarity [0] [[1]] = Inr [0]"
  by (simp add: cosine_similarity_def normalize_def norma_1 dot_def)

lemma cos_xy: "cosine_similarity [1] [[1], [1]] = Inr [1, 1]"
  by (simp add: cosine_similarity_def normalize_def norma_1 dot_def)

lemma top_xy: "top_indices [1, 1] 5 = [1, 0]" "top_indices [1, 1] 1 = [1]" "top_indices [0] 5 = [0]"
  by (simp_all add: top_indices_def argsort_def py_slice_def slice_bound_def upt_rec)

lemma fontes_xy: "fonte_documento ''xy'' 0 = ''BNCC''" "fonte_documento ''xy'' (Suc 0) = ''DCRC''"
  by code_simp+

lemma kw_cond:
  "list_ex (\<lambda>palavra. str_in palavra (str_lower ''abcdef'')) (str_split (str_lower ''bcd''))"
  by code_simp

lemma kw_abcdef:
  "passo_palavras_chave 5 (str_split (str_lower ''bcd''))
     [\<lparr>texto = ''abcdef'', indice = 0, posicao_inicial = 0\<rparr>] [] =
   [\<lparr>chunk = \<lparr>texto = ''abcdef'', indice = 0, posicao_inicial = 0\<rparr>,
     similaridade = 3 / 10, texto_res = ''abcdef'', fonte = None\<rparr>]"
  using kw_cond by simp

lemma busca_abcdef:
  "buscar_informacoes_relevantes ''bcd'' (Some (dados_de indice_abcdef)) 5 =
   [\<lparr>chunk = \<lparr>texto = ''abcdef'', indice = 0, posicao_inicial = 0\<rparr>,
     similaridade = 3 / 10, texto_res = ''abcdef'', fonte = None\<rparr>]"
  using kw_cond
  by (simp add: buscar_informacoes_relevantes_def dados_de_def indice_abcdef_def buscar_corpo_def
        vetor_bcd cos_abcdef top_xy hab)

lemma busca_xy_5:
  "buscar_informacoes_relevantes ''xy'' (Some (dados_de indice_xy)) 5 =
   [\<lparr>chunk = \<lparr>texto = ''xy'', indice = 1, posicao_inicial = 1\<rparr>,
     similaridade = 1, texto_res = ''xy'', fonte = Some ''DCRC''\<rparr>,
    \<lparr>chunk = \<lparr>texto = ''xy'', indice = 0, posicao_inicial = 0\<rparr>,
     similaridade = 1, texto_res = ''xy'', fonte = Some ''BNCC''\<rparr>]"
  by (simp add: buscar_informacoes_relevantes_def dados_de_def indice_xy_def buscar_corpo_def
        vetor_xy cos_xy top_xy hab fontes_xy)


subsection \<open>The order of the candidates\<close>





lemma buscar_corpo_passos:
  assumes "buscar_corpo consulta ind top_k = Inr rs"
  shows "\<exists>sims prim.
    cosine_similarity (vectorizer ind (expandir_consulta consulta)) (tfidf_matrix ind) = Inr sims
    \<and> passo_primario sims (chunks ind) (top_indices sims top_k) [] = Inr prim
    \<and> rs = (if (if consulta_habilidade consulta
                 then passo_habilidades top_k (enumerate 0 (chunks ind)) prim else prim) = []
             then passo_palavras_chave top_k (str_split (str_lower consulta)) (chunks ind) []
             else (if consulta_habilidade consulta
                   then passo_habilidades top_k (enumerate 0 (chunks ind)) prim else prim))"
  using assms unfolding buscar_corpo_def Let_def
  by (auto split: sum.splits if_splits)


subsection \<open>Claims about the retriever\<close>

lemma passo_primario_Inr:
  assumes "passo_primario sims cs idxs [] = Inr rs"
  shows "rs = map (\<lambda>i. \<lparr>chunk = cs ! i, similaridade = sims ! i, texto_res = texto (cs ! i),
                         fonte = Some (fonte_documento (texto (cs ! i)) i)\<rparr>)
                (filter (\<lambda>i. sims ! i > 5 / 100) idxs)"
  using assms unfolding passo_primario_filter by (simp split: if_splits)











text \<open>
  C1 (as stated) fails for the keyword pass: the corpus \<open>abcdef\<close> has no source marker,
  the query \<open>bcd\<close> shares no term with it, so that the primary pass finds nothing, and
  the keyword pass returns the chunk, which contains \<open>bcd\<close>, in a record without the
  field \<open>fonte\<close>.
\<close>

theorem buscar_informacoes_relevantes_fonte_counterexample:
  "buscar_informacoes_relevantes ''bcd'' (Some (dados_de indice_abcdef)) 5 =
   [\<lparr>chunk = \<lparr>texto = ''abcdef'', indice = 0, posicao_inicial = 0\<rparr>,
     similaridade = 3 / 10, texto_res = ''abcdef'', fonte = None\<rparr>]"
  by (rule busca_abcdef)

text \<open>
  C1 (amended). Every result of the primary pass and of the search for abilities
  carries the label BNCC or DCRC, also on a corpus without source markers, where the
  parity of the chunk position decides. The results of the keyword pass, which runs
  only when the other two passes returned nothing, carry no label and the score 0.3.
  So a result list is either labelled throughout or unlabelled throughout.
\<close>

theorem buscar_informacoes_relevantes_fonte:
  "(\<forall>r\<in>set (buscar_informacoes_relevantes consulta dados top_k).
       fonte r = Some ''BNCC'' \<or> fonte r = Some ''DCRC'')
   \<or> (\<forall>r\<in>set (buscar_informacoes_relevantes consulta dados top_k).
       fonte r = None \<and> similaridade r = 3 / 10)"
proof (cases dados)
  case None
  then show ?thesis by (simp add: buscar_informacoes_relevantes_def)
next
  case (Some d)
  show ?thesis
  proof (cases "indice_similaridade d")
    case None
    with Some show ?thesis by (simp add: buscar_informacoes_relevantes_def)
  next
    case (Some ind)
    show ?thesis
    proof (cases "buscar_corpo consulta ind top_k")
      case (Inl e)
      with Some \<open>dados = Some d\<close> show ?thesis by (simp add: buscar_informacoes_relevantes_def)
    next
      case (Inr rs)
      then have b: "buscar_informacoes_relevantes consulta dados top_k = rs"
        using Some \<open>dados = Some d\<close> by (simp add: buscar_informacoes_relevantes_def)
      let ?L = "\<lambda>r. fonte r = Some ''BNCC'' \<or> fonte r = Some ''DCRC''"
      from buscar_corpo_passos[OF Inr] obtain sims prim where
        p: "passo_primario sims (chunks ind) (top_indices sims top_k) [] = Inr prim"
        and r: "rs = (if (if consulta_habilidade consulta
                 then passo_habilidades top_k (enumerate 0 (chunks ind)) prim else prim) = []
             then passo_palavras_chave top_k (str_split (str_lower consulta)) (chunks ind) []
             else (if consulta_habilidade consulta
                   then passo_habilidades top_k (enumerate 0 (chunks ind)) prim else prim))"
        by blast
      have prim: "\<forall>r\<in>set prim. ?L r"
        unfolding passo_primario_Inr[OF p] using fonte_documento_cases by auto
      have hab: "\<forall>r\<in>set (passo_habilidades top_k (enumerate 0 (chunks ind)) prim). ?L r"
        using prim by (rule passo_habilidades_inv) (simp add: fonte_habilidade_cases)
      show ?thesis
      proof (cases "(if consulta_habilidade consulta
            then passo_habilidades top_k (enumerate 0 (chunks ind)) prim else prim) = []")
        case True
        have "\<forall>r\<in>set (passo_palavras_chave top_k (str_split (str_lower consulta)) (chunks ind) []).
                fonte r = None \<and> similaridade r = 3 / 10"
          by (rule passo_palavras_chave_inv) simp_all
        moreover from r True have
          "rs = passo_palavras_chave top_k (str_split (str_lower consulta)) (chunks ind) []"
          by simp
        ultimately show ?thesis unfolding b by blast
      next
        case False
        with r have "rs = (if consulta_habilidade consulta
                   then passo_habilidades top_k (enumerate 0 (chunks ind)) prim else prim)"
          by simp
        then have "\<forall>r\<in>set rs. ?L r"
          using prim hab by (cases "consulta_habilidade consulta") simp_all
        then show ?thesis unfolding b by blast
      qed
    qed
  qed
qed

theorem buscar_informacoes_relevantes_fonte_witness:
  "buscar_informacoes_relevantes ''xy'' (Some (dados_de indice_xy)) 5 =
       [\<lparr>chunk = \<lparr>texto = ''xy'', indice = 1, posicao_inicial = 1\<rparr>,
         similaridade = 1, texto_res = ''xy'', fonte = Some ''DCRC''\<rparr>,
        \<lparr>chunk = \<lparr>texto = ''xy'', indice = 0, posicao_inicial = 0\<rparr>,
         similaridade = 1, texto_res = ''xy'', fonte = Some ''BNCC''\<rparr>]
   \<and> (fonte \<lparr>chunk = \<lparr>texto = ''xy'', indice = 0, posicao_inicial = 0\<rparr>,
         similaridade = 1, texto_res = ''xy'', fonte = Some ''BNCC''\<rparr> = Some ''BNCC''
      \<or> fonte \<lparr>chunk = \<lparr>texto = ''xy'', indice = 0, posicao_inicial = 0\<rparr>,
         similaridade = 1, texto_res = ''xy'', fonte = Some ''BNCC''\<rparr> = Some ''DCRC'')"
proof -
  note t = buscar_informacoes_relevantes_fonte [of "''xy''" "Some (dados_de indice_xy)" 5]
  from t show ?thesis unfolding busca_xy_5 by simp
qed




end
